theory Spec2Isabelle
  imports Main "HOL-Library.AList"
begin

section \<open>JavaScript values, option objects and errors\<close>

text \<open>
  Option objects reach the code as plain JavaScript objects: the TypeScript types are
  erased at run time, so an object is modelled as the list of its own properties in
  insertion order, and a property that is not there reads as \<open>undefined\<close>.
  \<open>JRef\<close> stands for an opaque object reference (a connection, a model class).
\<close>

datatype jsval =
    JUndef
  | JNull
  | JBool bool
  | JNum int
  | JStr string
  | JArr "jsval list"
  | JObj "(string \<times> jsval) list"
  | JRef nat

type_synonym object = "(string \<times> jsval) list"

text \<open>The truthiness test of \<^verbatim>\<open>x ? a : b\<close>, \<^verbatim>\<open>if (x)\<close> and \<^verbatim>\<open>!x\<close>.\<close>

fun truthy :: "jsval \<Rightarrow> bool" where
  "truthy JUndef = False"
| "truthy JNull = False"
| "truthy (JBool b) = b"
| "truthy (JNum n) = (n \<noteq> 0)"
| "truthy (JStr s) = (s \<noteq> [])"
| "truthy (JArr xs) = True"
| "truthy (JObj ps) = True"
| "truthy (JRef r) = True"

text \<open>\<^verbatim>\<open>options?.key\<close>: \<open>undefined\<close> when the object or the property is absent.\<close>

definition get_prop :: "object option \<Rightarrow> string \<Rightarrow> jsval" where
  "get_prop options key =
     (case options of
        None \<Rightarrow> JUndef
      | Some ob \<Rightarrow> (case map_of ob key of None \<Rightarrow> JUndef | Some v \<Rightarrow> v))"


text \<open>\<^verbatim>\<open>{ ...a, ...b }\<close>: the properties of \<open>b\<close> are written over those of \<open>a\<close>.\<close>

definition spread :: "object \<Rightarrow> object \<Rightarrow> object" where
  "spread a b = fold (\<lambda>(k, v) acc. AList.update k v acc) b a"

text \<open>
  \<open>Error m\<close> is \<^verbatim>\<open>new Error(m)\<close>, the only error the code under study constructs itself;
  \<open>TypeError\<close> is what the runtime throws when \<open>undefined\<close> is called; \<open>Thrown\<close> is any
  value thrown by a callback or a collaborator. The last two constructors are the two
  failures of the option validator as the specification names them.
\<close>

datatype error =
    Error string
  | TypeError string
  | Thrown string
  | UnknownOptionError string string string
  | DialectNotSupportedError string string string

section \<open>The Snowflake query generator\<close>

text \<open>
  \<open>SnowflakeQueryGeneratorTypeScript\<close> inherits \<open>escape\<close>, \<open>quoteIdentifier\<close>,
  \<open>quoteTable\<close> and \<open>extractTableDetails\<close> from the abstract generator and imports
  \<open>joinSQLFragments\<close>, \<open>rejectInvalidOptions\<close> and the four sets of supportable
  options from modules that are not part of the sources at hand. They are the fields of
  the record below, so every statement about an operation holds for whatever these
  collaborators compute.
\<close>

record TableDetails =
  tableName :: string
  schema :: string

record QueryGenerator =
  dialect_name :: string
  escape :: "jsval \<Rightarrow> string"
  quoteIdentifier :: "string \<Rightarrow> string"
  quoteTable :: "jsval \<Rightarrow> string"
  extractTableDetails :: "jsval \<Rightarrow> TableDetails"
  getTechnicalSchemaNames :: "string list"
  joinSQLFragments :: "string list \<Rightarrow> string"
  rejectInvalidOptions ::
    "string \<Rightarrow> string \<Rightarrow> string list \<Rightarrow> string list \<Rightarrow> object \<Rightarrow> error option"
  CREATE_DATABASE_QUERY_SUPPORTABLE_OPTIONS :: "string list"
  LIST_DATABASES_QUERY_SUPPORTABLE_OPTIONS :: "string list"
  SHOW_CONSTRAINTS_QUERY_SUPPORTABLE_OPTIONS :: "string list"
  TRUNCATE_TABLE_QUERY_SUPPORTABLE_OPTIONS :: "string list"

definition CREATE_DATABASE_QUERY_SUPPORTED_OPTIONS :: "string list" where
  "CREATE_DATABASE_QUERY_SUPPORTED_OPTIONS = []"

definition LIST_DATABASES_QUERY_SUPPORTED_OPTIONS :: "string list" where
  "LIST_DATABASES_QUERY_SUPPORTED_OPTIONS = []"

definition SHOW_CONSTRAINTS_QUERY_SUPPORTED_OPTIONS :: "string list" where
  "SHOW_CONSTRAINTS_QUERY_SUPPORTED_OPTIONS = [''constraintName'', ''constraintType'']"

definition TRUNCATE_TABLE_QUERY_SUPPORTED_OPTIONS :: "string list" where
  "TRUNCATE_TABLE_QUERY_SUPPORTED_OPTIONS = []"

text \<open>\<^verbatim>\<open>Array.prototype.join\<close> on an array of strings.\<close>

fun js_join :: "string \<Rightarrow> string list \<Rightarrow> string" where
  "js_join sep [] = []"
| "js_join sep [x] = x"
| "js_join sep (x # y # ys) = x @ sep @ js_join sep (y # ys)"

definition createDatabaseQuery ::
  "QueryGenerator \<Rightarrow> string \<Rightarrow> object option \<Rightarrow> error + string" where
  "createDatabaseQuery G database options =
     (case (case options of
              None \<Rightarrow> None
            | Some ob \<Rightarrow>
                rejectInvalidOptions G ''createDatabaseQuery'' (dialect_name G)
                  (CREATE_DATABASE_QUERY_SUPPORTABLE_OPTIONS G)
                  CREATE_DATABASE_QUERY_SUPPORTED_OPTIONS ob) of
        Some e \<Rightarrow> Inl e
      | None \<Rightarrow>
          Inr (joinSQLFragments G
                 [''CREATE DATABASE IF NOT EXISTS '' @ quoteIdentifier G database]))"

definition listDatabasesQuery :: "QueryGenerator \<Rightarrow> object option \<Rightarrow> error + string" where
  "listDatabasesQuery G options =
     (case (case options of
              None \<Rightarrow> None
            | Some ob \<Rightarrow>
                rejectInvalidOptions G ''listDatabasesQuery'' (dialect_name G)
                  (LIST_DATABASES_QUERY_SUPPORTABLE_OPTIONS G)
                  LIST_DATABASES_QUERY_SUPPORTED_OPTIONS ob) of
        Some e \<Rightarrow> Inl e
      | None \<Rightarrow> Inr ''SHOW DATABASES'')"

definition listSchemasQuery :: "QueryGenerator \<Rightarrow> object option \<Rightarrow> error + string" where
  \<open>listSchemasQuery G options =
     (let schemasToSkip =
            (case get_prop options ''skip'' of
               JArr skip \<Rightarrow> map JStr (getTechnicalSchemaNames G) @ skip
             | _ \<Rightarrow> map JStr (getTechnicalSchemaNames G))
      in Inr (joinSQLFragments G
                [''SELECT SCHEMA_NAME AS "schema"'',
                 ''FROM INFORMATION_SCHEMA.SCHEMATA'',
                 ''WHERE SCHEMA_NAME NOT IN (''
                   @ js_join '', '' (map (escape G) schemasToSkip) @ '')'']))\<close>

definition describeTableQuery :: "QueryGenerator \<Rightarrow> jsval \<Rightarrow> error + string" where
  "describeTableQuery G tableRef =
     Inr (''SHOW FULL COLUMNS FROM '' @ quoteTable G tableRef @ '';'')"

definition listTablesQuery :: "QueryGenerator \<Rightarrow> object option \<Rightarrow> error + string" where
  \<open>listTablesQuery G options =
     Inr (joinSQLFragments G
            [''SELECT TABLE_NAME AS "tableName",'',
             ''TABLE_SCHEMA AS "schema"'',
             ''FROM INFORMATION_SCHEMA.TABLES WHERE TABLE_TYPE = 'BASE TABLE'' @ [CHR 0x27],
             (if truthy (get_prop options ''schema'')
              then ''AND TABLE_SCHEMA = '' @ escape G (get_prop options ''schema'')
              else ''AND TABLE_SCHEMA NOT IN (''
                     @ js_join '', '' (map (\<lambda>s. escape G (JStr s)) (getTechnicalSchemaNames G))
                     @ '')''),
             ''ORDER BY TABLE_SCHEMA, TABLE_NAME''])\<close>

definition truncateTableQuery ::
  "QueryGenerator \<Rightarrow> jsval \<Rightarrow> object option \<Rightarrow> error + string" where
  "truncateTableQuery G tableRef options =
     (case (case options of
              None \<Rightarrow> None
            | Some ob \<Rightarrow>
                rejectInvalidOptions G ''truncateTableQuery'' (dialect_name G)
                  (TRUNCATE_TABLE_QUERY_SUPPORTABLE_OPTIONS G)
                  TRUNCATE_TABLE_QUERY_SUPPORTED_OPTIONS ob) of
        Some e \<Rightarrow> Inl e
      | None \<Rightarrow> Inr (''TRUNCATE '' @ quoteTable G tableRef))"

definition showConstraintsQuery ::
  "QueryGenerator \<Rightarrow> jsval \<Rightarrow> object option \<Rightarrow> error + string" where
  "showConstraintsQuery G tableRef options =
     (case (case options of
              None \<Rightarrow> None
            | Some ob \<Rightarrow>
                rejectInvalidOptions G ''showConstraintsQuery'' (dialect_name G)
                  (SHOW_CONSTRAINTS_QUERY_SUPPORTABLE_OPTIONS G)
                  SHOW_CONSTRAINTS_QUERY_SUPPORTED_OPTIONS ob) of
        Some e \<Rightarrow> Inl e
      | None \<Rightarrow>
          (let table = extractTableDetails G tableRef
           in Inr (joinSQLFragments G
                [''SELECT c.CONSTRAINT_CATALOG AS constraintCatalog,'',
                 ''c.CONSTRAINT_SCHEMA AS constraintSchema,'',
                 ''c.CONSTRAINT_NAME AS constraintName,'',
                 ''c.CONSTRAINT_TYPE AS constraintType,'',
                 ''c.TABLE_CATALOG AS tableCatalog,'',
                 ''c.TABLE_SCHEMA AS tableSchema,'',
                 ''c.TABLE_NAME AS tableName,'',
                 ''fk.TABLE_SCHEMA AS referencedTableSchema,'',
                 ''fk.TABLE_NAME AS referencedTableName,'',
                 ''r.DELETE_RULE AS deleteAction,'',
                 ''r.UPDATE_RULE AS updateAction,'',
                 ''c.IS_DEFERRABLE AS isDeferrable,'',
                 ''c.INITIALLY_DEFERRED AS initiallyDeferred'',
                 ''FROM INFORMATION_SCHEMA.TABLE_CONSTRAINTS c'',
                 ''LEFT JOIN INFORMATION_SCHEMA.REFERENTIAL_CONSTRAINTS r ON c.CONSTRAINT_CATALOG = r.CONSTRAINT_CATALOG AND c.CONSTRAINT_SCHEMA = r.CONSTRAINT_SCHEMA AND c.CONSTRAINT_NAME = r.CONSTRAINT_NAME'',
                 ''LEFT JOIN INFORMATION_SCHEMA.TABLE_CONSTRAINTS fk ON r.UNIQUE_CONSTRAINT_CATALOG = fk.CONSTRAINT_CATALOG AND r.UNIQUE_CONSTRAINT_SCHEMA = fk.CONSTRAINT_SCHEMA AND r.UNIQUE_CONSTRAINT_NAME = fk.CONSTRAINT_NAME'',
                 ''WHERE c.TABLE_NAME = '' @ escape G (JStr (tableName table)),
                 ''AND c.TABLE_SCHEMA = '' @ escape G (JStr (schema table)),
                 (if truthy (get_prop options ''constraintName'')
                  then ''AND c.CONSTRAINT_NAME = '' @ escape G (get_prop options ''constraintName'')
                  else ''''),
                 (if truthy (get_prop options ''constraintType'')
                  then ''AND c.CONSTRAINT_TYPE = '' @ escape G (get_prop options ''constraintType'')
                  else ''''),
                 ''ORDER BY c.CONSTRAINT_NAME''])))"

definition showIndexesQuery :: "error + string" where
  "showIndexesQuery = Inr (''SELECT '' @ [CHR 0x27, CHR 0x27] @ '' FROM DUAL'')"

definition versionQuery :: "error + string" where
  \<open>versionQuery = Inr ''SELECT CURRENT_VERSION() AS "version"''\<close>


section \<open>The Sequelize instance: transactions, bulk operations, connections\<close>

text \<open>
  Transactions, connections and model classes are objects compared by identity; each is
  modelled by a reference number. The run-time state is the trace of the calls made to
  the collaborators, the next fresh reference, and the state \<open>'w\<close> of everything outside
  (the database, the pool), which only the collaborators and the callbacks read and write.
\<close>

type_synonym Transaction = nat
type_synonym Connection = nat
type_synonym Model = nat

datatype TransactionNestMode = reuse | savepoint | separate

record ManagedTransactionOptions =
  nestMode :: "TransactionNestMode option"
  settings :: object

record NormalizedTransactionOptions =
  opt_transaction :: "Transaction option"
  opt_settings :: object

datatype event =
    NewTransaction Transaction NormalizedTransactionOptions
  | PrepareEnvironment Transaction
  | Commit Transaction
  | Rollback Transaction
  | ModelDestroy Model object
  | ModelTruncate Model "object option"
  | GetConnection object
  | DestroyConnection Connection
  | ReleaseConnection Connection

record 'w runtime =
  trace :: "event list"
  next_ref :: nat
  world :: 'w

type_synonym ('w, 'a) action = "'w runtime \<Rightarrow> (error + 'a) \<times> 'w runtime"

text \<open>
  A transaction callback is run inside \<^verbatim>\<open>cls.run(transaction, ...)\<close>: besides the
  transaction it is given, it sees the store of its asynchronous context, which is
  what a nested call of \<open>transaction\<close> reads. The store is therefore an argument of the
  callback and of \<open>transaction\<close>, not a mutable variable.
\<close>

type_synonym ('w, 'a) TransactionCallback =
  "Transaction \<Rightarrow> Transaction option \<Rightarrow> ('w, 'a) action"

type_synonym ('w, 'a) SessionCallback = "Connection \<Rightarrow> ('w, 'a) action"

datatype ('f, 'o) optionsOrCallback = IsFunction 'f | IsOptions 'o

text \<open>
  The instance with its collaborators: the options it was built with, the helpers of
  \<^verbatim>\<open>transaction.js\<close>, the methods of a \<open>Transaction\<close>, the model manager and the
  models, the dialect, the query interface and the connection manager. None of them is
  part of the sources at hand; the calls that the code awaits may fail and may change the
  outside world.
\<close>

record 'w Sequelize =
  defaultTransactionNestMode :: TransactionNestMode
  transactionCls :: bool
  normalizeTransactionOptions :: "ManagedTransactionOptions \<Rightarrow> NormalizedTransactionOptions"
  assertTransactionIsCompatibleWithOptions ::
    "Transaction \<Rightarrow> NormalizedTransactionOptions \<Rightarrow> error option"
  prepareEnvironment :: "Transaction \<Rightarrow> 'w \<Rightarrow> error option \<times> 'w"
  commit :: "Transaction \<Rightarrow> 'w \<Rightarrow> error option \<times> 'w"
  rollback :: "Transaction \<Rightarrow> 'w \<Rightarrow> error option \<times> 'w"
  getModelsTopoSortedByForeignKey :: "Model list option"
  models :: "Model list"
  model_destroy :: "Model \<Rightarrow> object \<Rightarrow> 'w \<Rightarrow> error option \<times> 'w"
  model_truncate :: "Model \<Rightarrow> object option \<Rightarrow> 'w \<Rightarrow> error option \<times> 'w"
  dialectName :: string
  foreignKeyChecksDisableable :: bool
  withoutForeignKeyChecks ::
    "object option \<Rightarrow> (Connection \<Rightarrow> ('w, unit) action) \<Rightarrow> ('w, unit) action"
  getConnection :: "object \<Rightarrow> 'w \<Rightarrow> (error + Connection) \<times> 'w"
  destroyConnection :: "Connection \<Rightarrow> 'w \<Rightarrow> error option \<times> 'w"
  releaseConnection :: "Connection \<Rightarrow> 'w \<Rightarrow> error option \<times> 'w"
  firstRejection :: "error list \<Rightarrow> nat"

text \<open>A call to a collaborator: the call is recorded, then its effect takes place.\<close>

definition invoke ::
  "event \<Rightarrow> ('w \<Rightarrow> 'r \<times> 'w) \<Rightarrow> 'w runtime \<Rightarrow> 'r \<times> 'w runtime" where
  "invoke ev f s =
     (case f (world s) of (r, w) \<Rightarrow> (r, s\<lparr>trace := trace s @ [ev], world := w\<rparr>))"

definition getCurrentClsTransaction :: "'w Sequelize \<Rightarrow> Transaction option \<Rightarrow> Transaction option" where
  "getCurrentClsTransaction S store = (if transactionCls S then store else None)"

text \<open>
  Modelled from the spec: \<open>setTransactionFromCls\<close> (of \<^verbatim>\<open>model-internals.js\<close>, which is
  not among the sources). The specification of the transaction engine, step 2: unless
  the mode is \<open>separate\<close>, the ambient transaction, if any, is fetched; it is then the
  transaction of the normalized options.
\<close>

definition setTransactionFromCls ::
  "NormalizedTransactionOptions \<Rightarrow> 'w Sequelize \<Rightarrow> Transaction option
     \<Rightarrow> NormalizedTransactionOptions" where
  "setTransactionFromCls normalizedOptions S store =
     (case getCurrentClsTransaction S store of
        None \<Rightarrow> normalizedOptions
      | Some t \<Rightarrow> normalizedOptions\<lparr>opt_transaction := Some t\<rparr>)"

text \<open>
  \<^verbatim>\<open>new Transaction(this, normalizedOptions)\<close>: a fresh object, whose parent is the
  transaction of the options. Every reference handed out before is below \<open>next_ref\<close>.
\<close>

definition new_Transaction ::
  "NormalizedTransactionOptions \<Rightarrow> 'w runtime \<Rightarrow> Transaction \<times> 'w runtime" where
  "new_Transaction normalizedOptions s =
     (next_ref s,
      s\<lparr>trace := trace s @ [NewTransaction (next_ref s) normalizedOptions],
        next_ref := Suc (next_ref s)\<rparr>)"

definition wrappedCallback ::
  "'w Sequelize \<Rightarrow> Transaction \<Rightarrow> bool \<Rightarrow> ('w, 'a) TransactionCallback
     \<Rightarrow> Transaction option \<Rightarrow> ('w, 'a) action" where
  "wrappedCallback S tx isReusedTransaction callback store s =
     (if isReusedTransaction then callback tx store s
      else
        (case invoke (PrepareEnvironment tx) (prepareEnvironment S tx) s of
           (Some e, s1) \<Rightarrow> (Inl e, s1)
         | (None, s1) \<Rightarrow>
             (case callback tx store s1 of
                (Inl err, s2) \<Rightarrow>
                  (case invoke (Rollback tx) (rollback S tx) s2 of
                     (ignored, s3) \<Rightarrow> (Inl err, s3))
              | (Inr result, s2) \<Rightarrow>
                  (case invoke (Commit tx) (commit S tx) s2 of
                     (Some e, s3) \<Rightarrow> (Inl e, s3)
                   | (None, s3) \<Rightarrow> (Inr result, s3)))))"

definition transaction ::
  "'w Sequelize \<Rightarrow> Transaction option
     \<Rightarrow> (('w, 'a) TransactionCallback, ManagedTransactionOptions) optionsOrCallback
     \<Rightarrow> ('w, 'a) TransactionCallback option \<Rightarrow> ('w, 'a) action" where
  "transaction S store optionsOrCallback maybeCallback s =
     (let (options, callback) =
            (case optionsOrCallback of
               IsFunction f \<Rightarrow> (\<lparr>nestMode = None, settings = []\<rparr>, Some f)
             | IsOptions ob \<Rightarrow> (ob, maybeCallback))
      in case callback of
           None \<Rightarrow>
             (Inl (Error ''sequelize.transaction requires a callback. If you wish to start an unmanaged transaction, please use sequelize.startUnmanagedTransaction instead''), s)
         | Some cb \<Rightarrow>
             (let mode = (case nestMode options of
                            Some m \<Rightarrow> m
                          | None \<Rightarrow> defaultTransactionNestMode S);
                  normalizedOptions = normalizeTransactionOptions S options
              in case (if mode = separate
                       then Inr (normalizedOptions\<lparr>opt_transaction := None\<rparr>)
                       else (let fromCls = setTransactionFromCls normalizedOptions S store
                             in case opt_transaction fromCls of
                                  None \<Rightarrow> Inr fromCls
                                | Some t \<Rightarrow>
                                    (case assertTransactionIsCompatibleWithOptions S t fromCls of
                                       Some e \<Rightarrow> Inl e
                                     | None \<Rightarrow> Inr fromCls))) of
                   Inl e \<Rightarrow> (Inl e, s)
                 | Inr finalOptions \<Rightarrow>
                     (case (case (mode = reuse, opt_transaction finalOptions) of
                              (True, Some t) \<Rightarrow> (t, s)
                            | _ \<Rightarrow> new_Transaction finalOptions s) of
                        (tx, s0) \<Rightarrow>
                          wrappedCallback S tx (opt_transaction finalOptions = Some tx) cb
                            (if transactionCls S then Some tx else store) s0)))"

text \<open>\<^verbatim>\<open>{ ...options }\<close> copies nothing when \<open>options\<close> is \<open>undefined\<close>.\<close>

definition own_properties :: "object option \<Rightarrow> object" where
  "own_properties options = (case options of None \<Rightarrow> [] | Some ob \<Rightarrow> ob)"


fun truncate_each :: "'w Sequelize \<Rightarrow> object option \<Rightarrow> Model list \<Rightarrow> ('w, unit) action" where
  "truncate_each S options [] s = (Inr (), s)"
| "truncate_each S options (model # rest) s =
     (case invoke (ModelTruncate model options) (model_truncate S model options) s of
        (Some e, s1) \<Rightarrow> (Inl e, s1)
      | (None, s1) \<Rightarrow> truncate_each S options rest s1)"

text \<open>
  \<^verbatim>\<open>Promise.all(models.map(async model => model.truncate(options)))\<close> starts the call on
  every model, in the order of the list, and none is cancelled when another fails.
  \<open>truncate_calls\<close> makes these calls, in the order in which they are started, and
  collects what each of them comes to.
\<close>

fun truncate_calls ::
  "'w Sequelize \<Rightarrow> object option \<Rightarrow> Model list \<Rightarrow> 'w runtime \<Rightarrow> error option list \<times> 'w runtime" where
  "truncate_calls S options [] s = ([], s)"
| "truncate_calls S options (model # rest) s =
     (case invoke (ModelTruncate model options) (model_truncate S model options) s of
        (r, s1) \<Rightarrow>
          (case truncate_calls S options rest s1 of
             (rs, s2) \<Rightarrow> (r # rs, s2)))"

text \<open>
  \<^verbatim>\<open>Promise.all\<close> fulfils when every call has fulfilled, and rejects with the rejection
  that comes first in time. Time is not part of the state: which of the rejections is
  the first is for the collaborators to say, and \<open>firstRejection\<close> gives its position
  among the rejections, listed in the order in which the calls were started.
\<close>

definition rejections :: "error option list \<Rightarrow> error list" where
  "rejections outcomes = concat (map (\<lambda>r. case r of None \<Rightarrow> [] | Some e \<Rightarrow> [e]) outcomes)"

definition Promise_all :: "'w Sequelize \<Rightarrow> error option list \<Rightarrow> error + unit" where
  "Promise_all S outcomes =
     (case rejections outcomes of
        [] \<Rightarrow> Inr ()
      | e # es \<Rightarrow> Inl ((e # es) ! (firstRejection S (e # es) mod length (e # es))))"

definition truncate_all :: "'w Sequelize \<Rightarrow> object option \<Rightarrow> Model list \<Rightarrow> ('w, unit) action" where
  "truncate_all S options ms s =
     (case truncate_calls S options ms s of
        (outcomes, s1) \<Rightarrow> (Promise_all S outcomes, s1))"


definition truncate :: "'w Sequelize \<Rightarrow> object option \<Rightarrow> ('w, unit) action" where
  \<open>truncate S options s =
     (let sortedModels = getModelsTopoSortedByForeignKey S;
          ms = (case sortedModels of Some topo \<Rightarrow> topo | None \<Rightarrow> models S);
          hasCyclicDependencies = (sortedModels = None)
      in if hasCyclicDependencies \<and> \<not> truthy (get_prop options ''cascade'')
              \<and> \<not> truthy (get_prop options ''withoutForeignKeyChecks'')
         then (Inl (Error ''Sequelize#truncate: Some of your models have cyclic references (foreign keys). You need to use the "cascade" or "withoutForeignKeyChecks" options to be able to delete rows from models that have cyclic references.''), s)
         else if truthy (get_prop options ''withoutForeignKeyChecks'')
         then (if \<not> foreignKeyChecksDisableable S
               then (Inl (Error (''Sequelize#truncate: '' @ dialectName S @ '' does not support disabling foreign key checks. The "withoutForeignKeyChecks" option cannot be used.'')), s)
               else withoutForeignKeyChecks S options
                      (\<lambda>connection.
                         truncate_all S
                           (Some (spread (own_properties options) [(''connection'', JRef connection)]))
                           ms)
                      s)
         else if truthy (get_prop options ''cascade'')
         then truncate_each S options ms s
         else truncate_all S options ms s)\<close>

definition withConnection ::
  "'w Sequelize \<Rightarrow> (('w, 'a) SessionCallback, object) optionsOrCallback
     \<Rightarrow> ('w, 'a) SessionCallback option \<Rightarrow> ('w, 'a) action" where
  "withConnection S optionsOrCallback maybeCallback s =
     (let (options, callback) =
            (case optionsOrCallback of
               IsFunction f \<Rightarrow> ([(''type'', JStr ''write'')], Some f)
             | IsOptions ob \<Rightarrow> (spread [(''type'', JStr ''write'')] ob, maybeCallback))
      in case invoke (GetConnection options) (getConnection S options) s of
           (Inl e, s1) \<Rightarrow> (Inl e, s1)
         | (Inr connection, s1) \<Rightarrow>
             (case (case callback of
                      None \<Rightarrow> (Inl (TypeError ''callback is not a function''), s1)
                    | Some cb \<Rightarrow> cb connection s1) of
                (outcome, s2) \<Rightarrow>
                  (case (if truthy (get_prop (Some options) ''destroyConnection'')
                         then invoke (DestroyConnection connection)
                                (destroyConnection S connection) s2
                         else invoke (ReleaseConnection connection)
                                (releaseConnection S connection) s2) of
                     (Some e, s3) \<Rightarrow> (Inl e, s3)
                   | (None, s3) \<Rightarrow> (outcome, s3))))"

section \<open>Concrete collaborators\<close>

text \<open>
  Modelled from the spec: \<open>joinSQLFragments\<close> (of \<^verbatim>\<open>utils/join-sql-fragments\<close>, which is
  not among the sources). The specification of the fragment assembler: every fragment is
  trimmed, the empty ones are dropped, the others are joined with a single space, and a
  run of statement terminators at the end is reduced to one. Fragments here are strings;
  the absent and the nested fragments of the specification do not occur in the callers.
\<close>

definition is_space :: "char \<Rightarrow> bool" where
  "is_space c = (c \<in> set [CHR '' '', CHR 0x09, CHR 0x0A, CHR 0x0B, CHR 0x0C, CHR 0x0D])"

definition trim :: "string \<Rightarrow> string" where
  "trim s = rev (dropWhile is_space (rev (dropWhile is_space s)))"

definition normalizeTerminator :: "string \<Rightarrow> string" where
  "normalizeTerminator s =
     (let body = rev (dropWhile (\<lambda>c. c = CHR '';'') (rev s))
      in if body = s then s else body @ '';'')"

definition joinSQLFragments_spec :: "string list \<Rightarrow> string" where
  "joinSQLFragments_spec fragments =
     trim (normalizeTerminator (js_join '' '' (filter (\<lambda>f. f \<noteq> []) (map trim fragments))))"

text \<open>
  Modelled from the spec: \<open>rejectInvalidOptions\<close> (of \<^verbatim>\<open>utils/check\<close>, which is not among
  the sources). The specification of the option validator: a supplied key that is not
  supported fails as \<open>DialectNotSupportedError\<close> when it is supportable and as
  \<open>UnknownOptionError\<close> when it is not; the first such key of the object is reported.
\<close>

definition rejectInvalidOptions_spec ::
  "string \<Rightarrow> string \<Rightarrow> string list \<Rightarrow> string list \<Rightarrow> object \<Rightarrow> error option" where
  "rejectInvalidOptions_spec operationName dialectName' supportableOptions supportedOptions suppliedOptions =
     (case filter (\<lambda>key. key \<notin> set supportedOptions) (map fst suppliedOptions) of
        [] \<Rightarrow> None
      | key # others \<Rightarrow>
          Some (if key \<in> set supportableOptions
                then DialectNotSupportedError operationName dialectName' key
                else UnknownOptionError operationName dialectName' key))"

text \<open>
  A concrete generator on which the operations can be evaluated: the two functions above,
  string literals in single quotes with the quote doubled, identifiers in double quotes.
\<close>

definition exampleEscape :: "jsval \<Rightarrow> string" where
  "exampleEscape v =
     (case v of
        JStr s \<Rightarrow> [CHR 0x27] @ concat (map (\<lambda>c. if c = CHR 0x27 then [c, c] else [c]) s) @ [CHR 0x27]
      | _ \<Rightarrow> ''NULL'')"

definition exampleGenerator :: QueryGenerator where
  \<open>exampleGenerator =
     \<lparr>dialect_name = ''snowflake'',
      escape = exampleEscape,
      quoteIdentifier = (\<lambda>name. [CHR 0x22] @ name @ [CHR 0x22]),
      quoteTable = (\<lambda>t. case t of JStr name \<Rightarrow> [CHR 0x22] @ name @ [CHR 0x22] | _ \<Rightarrow> ''"?"''),
      extractTableDetails =
        (\<lambda>t. case t of JStr name \<Rightarrow> \<lparr>tableName = name, schema = ''PUBLIC''\<rparr>
                      | _ \<Rightarrow> \<lparr>tableName = ''?'', schema = ''PUBLIC''\<rparr>),
      getTechnicalSchemaNames = [''INFORMATION_SCHEMA'', ''SYS''],
      joinSQLFragments = joinSQLFragments_spec,
      rejectInvalidOptions = rejectInvalidOptions_spec,
      CREATE_DATABASE_QUERY_SUPPORTABLE_OPTIONS = [''charset'', ''collate''],
      LIST_DATABASES_QUERY_SUPPORTABLE_OPTIONS = [''skip''],
      SHOW_CONSTRAINTS_QUERY_SUPPORTABLE_OPTIONS = [''columnName'', ''constraintName'', ''constraintType''],
      TRUNCATE_TABLE_QUERY_SUPPORTABLE_OPTIONS = [''cascade'', ''restartIdentity'']\<rparr>\<close>

text \<open>
  A unit of work that only reads and writes the outside world: it calls neither the
  instance nor a collaborator, so it leaves the trace and the references alone.
\<close>

definition userCode :: "(Transaction \<Rightarrow> 'w \<Rightarrow> (error + 'a) \<times> 'w) \<Rightarrow> ('w, 'a) TransactionCallback" where
  "userCode f tx store s = (case f tx (world s) of (r, w) \<Rightarrow> (r, s\<lparr>world := w\<rparr>))"

text \<open>
  A concrete instance whose collaborators all succeed; the outside world is the number
  of calls that changed the database. Three models are registered, and the foreign keys
  sort them as 2, 1, 0.
\<close>

definition exampleSequelize :: "nat Sequelize" where
  "exampleSequelize =
     \<lparr>defaultTransactionNestMode = reuse,
      transactionCls = True,
      normalizeTransactionOptions = (\<lambda>ob. \<lparr>opt_transaction = None, opt_settings = settings ob\<rparr>),
      assertTransactionIsCompatibleWithOptions = (\<lambda>t normalizedOptions. None),
      prepareEnvironment = (\<lambda>t w. (None, w)),
      commit = (\<lambda>t w. (None, Suc w)),
      rollback = (\<lambda>t w. (None, w)),
      getModelsTopoSortedByForeignKey = Some [2, 1, 0],
      models = [0, 1, 2],
      model_destroy = (\<lambda>m ob w. (None, Suc w)),
      model_truncate = (\<lambda>m ob w. (None, Suc w)),
      dialectName = ''snowflake'',
      foreignKeyChecksDisableable = False,
      withoutForeignKeyChecks = (\<lambda>ob work s. work 0 s),
      getConnection = (\<lambda>ob w. (Inr 7, w)),
      destroyConnection = (\<lambda>c w. (None, w)),
      releaseConnection = (\<lambda>c w. (None, w)),
      firstRejection = (\<lambda>es. 0)\<rparr>"

definition initial :: "nat runtime" where
  "initial = \<lparr>trace = [], next_ref = 0, world = 0\<rparr>"

section \<open>Properties of the query generator\<close>

text \<open>
  Claim C7, as amended. For every generator and every options value, \<open>listTablesQuery\<close>
  returns a statement: the selection of the table name and the schema of the base tables,
  one predicate on the schema, and the ordering by schema and table name. When
  \<open>options.schema\<close> is a non-empty string the predicate is the equality with that schema,
  escaped, and nothing else; when \<open>options.schema\<close> is absent or is the empty string the
  predicate excludes the technical schemas of the dialect.
\<close>

theorem listTablesQuery_statement:
  \<open>\<exists>predicate.
     listTablesQuery G options =
       Inr (joinSQLFragments G
              [''SELECT TABLE_NAME AS "tableName",'',
               ''TABLE_SCHEMA AS "schema"'',
               ''FROM INFORMATION_SCHEMA.TABLES WHERE TABLE_TYPE = 'BASE TABLE'' @ [CHR 0x27],
               predicate,
               ''ORDER BY TABLE_SCHEMA, TABLE_NAME''])
     \<and> (\<forall>name. get_prop options ''schema'' = JStr name \<and> name \<noteq> [] \<longrightarrow>
            predicate = ''AND TABLE_SCHEMA = '' @ escape G (JStr name))
     \<and> (get_prop options ''schema'' = JUndef \<or> get_prop options ''schema'' = JStr [] \<longrightarrow>
            predicate = ''AND TABLE_SCHEMA NOT IN (''
              @ js_join '', '' (map (\<lambda>s. escape G (JStr s)) (getTechnicalSchemaNames G)) @ '')'')\<close>
  unfolding listTablesQuery_def by auto

theorem listTablesQuery_statement_witness:
  \<open>listTablesQuery exampleGenerator (Some [(''schema'', JStr ''APP'')]) =
     Inr (joinSQLFragments exampleGenerator
            [''SELECT TABLE_NAME AS "tableName",'',
             ''TABLE_SCHEMA AS "schema"'',
             ''FROM INFORMATION_SCHEMA.TABLES WHERE TABLE_TYPE = 'BASE TABLE'' @ [CHR 0x27],
             ''AND TABLE_SCHEMA = '' @ escape exampleGenerator (JStr ''APP''),
             ''ORDER BY TABLE_SCHEMA, TABLE_NAME''])
   \<and> listTablesQuery exampleGenerator None =
     Inr (joinSQLFragments exampleGenerator
            [''SELECT TABLE_NAME AS "tableName",'',
             ''TABLE_SCHEMA AS "schema"'',
             ''FROM INFORMATION_SCHEMA.TABLES WHERE TABLE_TYPE = 'BASE TABLE'' @ [CHR 0x27],
             ''AND TABLE_SCHEMA NOT IN ('' @ js_join '', '' (map (\<lambda>s. escape exampleGenerator (JStr s)) (getTechnicalSchemaNames exampleGenerator)) @ '')'',
             ''ORDER BY TABLE_SCHEMA, TABLE_NAME''])\<close>
  using listTablesQuery_statement [of exampleGenerator "Some [(''schema'', JStr ''APP'')]"]
    listTablesQuery_statement [of exampleGenerator None]
  by (auto simp: get_prop_def)

text \<open>
  The claim as first stated fails for the empty schema name: \<open>schema\<close> is given, and the
  statement is the one that excludes the technical schemas.
\<close>

theorem listTablesQuery_empty_schema_counterexample:
  \<open>listTablesQuery exampleGenerator (Some [(''schema'', JStr [])]) =
     Inr ''SELECT TABLE_NAME AS "tableName", TABLE_SCHEMA AS "schema" FROM INFORMATION_SCHEMA.TABLES WHERE TABLE_TYPE = 'BASE TABLE' AND TABLE_SCHEMA NOT IN ('INFORMATION_SCHEMA', 'SYS') ORDER BY TABLE_SCHEMA, TABLE_NAME''\<close>
  by code_simp

text \<open>
  Claim C3, as amended. \<open>createDatabaseQuery\<close>, \<open>listDatabasesQuery\<close>,
  \<open>truncateTableQuery\<close> and \<open>showConstraintsQuery\<close> hand a supplied options object to the
  validator before they compose anything: when the validator fails, its error is the
  result of the operation, and when it accepts, the operation does not fail. With no
  options none of the four fails. \<open>listSchemasQuery\<close> and \<open>listTablesQuery\<close> take options
  too but never call the validator: they return a statement for every options value,
  the same one whatever the validator is.
\<close>

theorem validator_is_called_by_four_operations:
  "(\<forall>e. rejectInvalidOptions G ''createDatabaseQuery'' (dialect_name G)
           (CREATE_DATABASE_QUERY_SUPPORTABLE_OPTIONS G) CREATE_DATABASE_QUERY_SUPPORTED_OPTIONS ob = Some e
         \<longrightarrow> createDatabaseQuery G database (Some ob) = Inl e)
   \<and> (\<forall>e. rejectInvalidOptions G ''listDatabasesQuery'' (dialect_name G)
           (LIST_DATABASES_QUERY_SUPPORTABLE_OPTIONS G) LIST_DATABASES_QUERY_SUPPORTED_OPTIONS ob = Some e
         \<longrightarrow> listDatabasesQuery G (Some ob) = Inl e)
   \<and> (\<forall>e. rejectInvalidOptions G ''truncateTableQuery'' (dialect_name G)
           (TRUNCATE_TABLE_QUERY_SUPPORTABLE_OPTIONS G) TRUNCATE_TABLE_QUERY_SUPPORTED_OPTIONS ob = Some e
         \<longrightarrow> truncateTableQuery G tableRef (Some ob) = Inl e)
   \<and> (\<forall>e. rejectInvalidOptions G ''showConstraintsQuery'' (dialect_name G)
           (SHOW_CONSTRAINTS_QUERY_SUPPORTABLE_OPTIONS G) SHOW_CONSTRAINTS_QUERY_SUPPORTED_OPTIONS ob = Some e
         \<longrightarrow> showConstraintsQuery G tableRef (Some ob) = Inl e)
   \<and> (rejectInvalidOptions G ''createDatabaseQuery'' (dialect_name G)
           (CREATE_DATABASE_QUERY_SUPPORTABLE_OPTIONS G) CREATE_DATABASE_QUERY_SUPPORTED_OPTIONS ob = None
         \<longrightarrow> \<not> isl (createDatabaseQuery G database (Some ob)))
   \<and> (rejectInvalidOptions G ''listDatabasesQuery'' (dialect_name G)
           (LIST_DATABASES_QUERY_SUPPORTABLE_OPTIONS G) LIST_DATABASES_QUERY_SUPPORTED_OPTIONS ob = None
         \<longrightarrow> \<not> isl (listDatabasesQuery G (Some ob)))
   \<and> (rejectInvalidOptions G ''truncateTableQuery'' (dialect_name G)
           (TRUNCATE_TABLE_QUERY_SUPPORTABLE_OPTIONS G) TRUNCATE_TABLE_QUERY_SUPPORTED_OPTIONS ob = None
         \<longrightarrow> \<not> isl (truncateTableQuery G tableRef (Some ob)))
   \<and> (rejectInvalidOptions G ''showConstraintsQuery'' (dialect_name G)
           (SHOW_CONSTRAINTS_QUERY_SUPPORTABLE_OPTIONS G) SHOW_CONSTRAINTS_QUERY_SUPPORTED_OPTIONS ob = None
         \<longrightarrow> \<not> isl (showConstraintsQuery G tableRef (Some ob)))
   \<and> \<not> isl (createDatabaseQuery G database None)
   \<and> \<not> isl (listDatabasesQuery G None)
   \<and> \<not> isl (truncateTableQuery G tableRef None)
   \<and> \<not> isl (showConstraintsQuery G tableRef None)
   \<and> \<not> isl (listSchemasQuery G options)
   \<and> \<not> isl (listTablesQuery G options)
   \<and> listSchemasQuery (G\<lparr>rejectInvalidOptions := validator\<rparr>) options = listSchemasQuery G options
   \<and> listTablesQuery (G\<lparr>rejectInvalidOptions := validator\<rparr>) options = listTablesQuery G options"
  by (simp add: createDatabaseQuery_def listDatabasesQuery_def truncateTableQuery_def
      showConstraintsQuery_def listSchemasQuery_def listTablesQuery_def Let_def split: jsval.split)

theorem validator_is_called_by_four_operations_witness:
  "createDatabaseQuery exampleGenerator ''db'' (Some [(''charset'', JStr ''utf8'')])
     = Inl (DialectNotSupportedError ''createDatabaseQuery'' ''snowflake'' ''charset'')
   \<and> \<not> isl (showConstraintsQuery exampleGenerator (JStr ''T'') (Some [(''constraintName'', JStr ''PK_1'')]))"
proof -
  have rejected:
    "rejectInvalidOptions exampleGenerator ''createDatabaseQuery'' (dialect_name exampleGenerator)
       (CREATE_DATABASE_QUERY_SUPPORTABLE_OPTIONS exampleGenerator)
       CREATE_DATABASE_QUERY_SUPPORTED_OPTIONS [(''charset'', JStr ''utf8'')]
     = Some (DialectNotSupportedError ''createDatabaseQuery'' ''snowflake'' ''charset'')"
    by code_simp
  have accepted:
    "rejectInvalidOptions exampleGenerator ''showConstraintsQuery'' (dialect_name exampleGenerator)
       (SHOW_CONSTRAINTS_QUERY_SUPPORTABLE_OPTIONS exampleGenerator)
       SHOW_CONSTRAINTS_QUERY_SUPPORTED_OPTIONS [(''constraintName'', JStr ''PK_1'')] = None"
    by code_simp
  from rejected
    validator_is_called_by_four_operations
      [of exampleGenerator "[(''charset'', JStr ''utf8'')]" "''db''" "JStr ''T''" None]
  have "createDatabaseQuery exampleGenerator ''db'' (Some [(''charset'', JStr ''utf8'')])
     = Inl (DialectNotSupportedError ''createDatabaseQuery'' ''snowflake'' ''charset'')"
    by blast
  moreover from accepted
    validator_is_called_by_four_operations
      [of exampleGenerator "[(''constraintName'', JStr ''PK_1'')]" "''db''" "JStr ''T''" None]
  have "\<not> isl (showConstraintsQuery exampleGenerator (JStr ''T'') (Some [(''constraintName'', JStr ''PK_1'')]))"
    by blast
  ultimately show ?thesis by blast
qed

text \<open>
  The claim as first stated fails for \<open>listTablesQuery\<close> and \<open>listSchemasQuery\<close>: an options
  object with a key that the validator of the specification rejects as unknown goes
  through both, while \<open>createDatabaseQuery\<close> refuses the same object.
\<close>

theorem listTablesQuery_skips_the_validator_counterexample:
  \<open>rejectInvalidOptions exampleGenerator ''listTablesQuery'' ''snowflake'' [''schema''] [''schema'']
       [(''bogus'', JNum 1)]
     = Some (UnknownOptionError ''listTablesQuery'' ''snowflake'' ''bogus'')
   \<and> listTablesQuery exampleGenerator (Some [(''bogus'', JNum 1)])
     = Inr ''SELECT TABLE_NAME AS "tableName", TABLE_SCHEMA AS "schema" FROM INFORMATION_SCHEMA.TABLES WHERE TABLE_TYPE = 'BASE TABLE' AND TABLE_SCHEMA NOT IN ('INFORMATION_SCHEMA', 'SYS') ORDER BY TABLE_SCHEMA, TABLE_NAME''
   \<and> rejectInvalidOptions exampleGenerator ''listSchemasQuery'' ''snowflake'' [''skip''] [''skip'']
       [(''bogus'', JNum 1)]
     = Some (UnknownOptionError ''listSchemasQuery'' ''snowflake'' ''bogus'')
   \<and> listSchemasQuery exampleGenerator (Some [(''bogus'', JNum 1)])
     = Inr (''SELECT SCHEMA_NAME AS "schema" FROM INFORMATION_SCHEMA.SCHEMATA WHERE SCHEMA_NAME NOT IN ('INFORMATION_SCHEMA', 'SYS')'')
   \<and> createDatabaseQuery exampleGenerator ''db'' (Some [(''bogus'', JNum 1)])
     = Inl (UnknownOptionError ''createDatabaseQuery'' ''snowflake'' ''bogus'')\<close>
  by code_simp

text \<open>
  Claim C8, as amended. For every table reference, when the options are absent or pass
  the validator, \<open>showConstraintsQuery\<close> returns a statement whose selected columns
  include the schema and name of the referenced table and the delete and update actions,
  filtered to the name and the schema of the resolved table, then by constraint name and
  by constraint type, ordered by constraint name. The filter by constraint name is the
  equality with \<open>options.constraintName\<close> when that is a non-empty string, and is left out
  (an empty fragment) when it is absent or the empty string; likewise for the constraint
  type. When the validator rejects the options, its error is the result and there is no
  statement.
\<close>

theorem showConstraintsQuery_statement:
  "(options = None
      \<or> (\<exists>ob. options = Some ob
            \<and> rejectInvalidOptions G ''showConstraintsQuery'' (dialect_name G)
                (SHOW_CONSTRAINTS_QUERY_SUPPORTABLE_OPTIONS G)
                SHOW_CONSTRAINTS_QUERY_SUPPORTED_OPTIONS ob = None)
    \<longrightarrow>
      (\<exists>columns byName byType.
         showConstraintsQuery G tableRef options =
           Inr (joinSQLFragments G
                  (columns @
                   [''WHERE c.TABLE_NAME = '' @ escape G (JStr (tableName (extractTableDetails G tableRef))),
                    ''AND c.TABLE_SCHEMA = '' @ escape G (JStr (schema (extractTableDetails G tableRef))),
                    byName, byType,
                    ''ORDER BY c.CONSTRAINT_NAME'']))
         \<and> set [''fk.TABLE_SCHEMA AS referencedTableSchema,'',
                 ''fk.TABLE_NAME AS referencedTableName,'',
                 ''r.DELETE_RULE AS deleteAction,'',
                 ''r.UPDATE_RULE AS updateAction,''] \<subseteq> set columns
         \<and> (\<forall>name. get_prop options ''constraintName'' = JStr name \<and> name \<noteq> [] \<longrightarrow>
                byName = ''AND c.CONSTRAINT_NAME = '' @ escape G (JStr name))
         \<and> (get_prop options ''constraintName'' = JUndef
              \<or> get_prop options ''constraintName'' = JStr [] \<longrightarrow> byName = [])
         \<and> (\<forall>type. get_prop options ''constraintType'' = JStr type \<and> type \<noteq> [] \<longrightarrow>
                byType = ''AND c.CONSTRAINT_TYPE = '' @ escape G (JStr type))
         \<and> (get_prop options ''constraintType'' = JUndef
              \<or> get_prop options ''constraintType'' = JStr [] \<longrightarrow> byType = [])))
   \<and> (\<forall>ob e. options = Some ob
          \<and> rejectInvalidOptions G ''showConstraintsQuery'' (dialect_name G)
              (SHOW_CONSTRAINTS_QUERY_SUPPORTABLE_OPTIONS G)
              SHOW_CONSTRAINTS_QUERY_SUPPORTED_OPTIONS ob = Some e
          \<longrightarrow> showConstraintsQuery G tableRef options = Inl e)"
proof (intro conjI impI allI)
  assume ok: "options = None
      \<or> (\<exists>ob. options = Some ob
            \<and> rejectInvalidOptions G ''showConstraintsQuery'' (dialect_name G)
                (SHOW_CONSTRAINTS_QUERY_SUPPORTABLE_OPTIONS G)
                SHOW_CONSTRAINTS_QUERY_SUPPORTED_OPTIONS ob = None)"
  let ?columns = "[''SELECT c.CONSTRAINT_CATALOG AS constraintCatalog,'',
                 ''c.CONSTRAINT_SCHEMA AS constraintSchema,'',
                 ''c.CONSTRAINT_NAME AS constraintName,'',
                 ''c.CONSTRAINT_TYPE AS constraintType,'',
                 ''c.TABLE_CATALOG AS tableCatalog,'',
                 ''c.TABLE_SCHEMA AS tableSchema,'',
                 ''c.TABLE_NAME AS tableName,'',
                 ''fk.TABLE_SCHEMA AS referencedTableSchema,'',
                 ''fk.TABLE_NAME AS referencedTableName,'',
                 ''r.DELETE_RULE AS deleteAction,'',
                 ''r.UPDATE_RULE AS updateAction,'',
                 ''c.IS_DEFERRABLE AS isDeferrable,'',
                 ''c.INITIALLY_DEFERRED AS initiallyDeferred'',
                 ''FROM INFORMATION_SCHEMA.TABLE_CONSTRAINTS c'',
                 ''LEFT JOIN INFORMATION_SCHEMA.REFERENTIAL_CONSTRAINTS r ON c.CONSTRAINT_CATALOG = r.CONSTRAINT_CATALOG AND c.CONSTRAINT_SCHEMA = r.CONSTRAINT_SCHEMA AND c.CONSTRAINT_NAME = r.CONSTRAINT_NAME'',
                 ''LEFT JOIN INFORMATION_SCHEMA.TABLE_CONSTRAINTS fk ON r.UNIQUE_CONSTRAINT_CATALOG = fk.CONSTRAINT_CATALOG AND r.UNIQUE_CONSTRAINT_SCHEMA = fk.CONSTRAINT_SCHEMA AND r.UNIQUE_CONSTRAINT_NAME = fk.CONSTRAINT_NAME'']"
  let ?byName = "if truthy (get_prop options ''constraintName'')
                  then ''AND c.CONSTRAINT_NAME = '' @ escape G (get_prop options ''constraintName'')
                  else []"
  let ?byType = "if truthy (get_prop options ''constraintType'')
                  then ''AND c.CONSTRAINT_TYPE = '' @ escape G (get_prop options ''constraintType'')
                  else []"
  from ok have "showConstraintsQuery G tableRef options =
           Inr (joinSQLFragments G
                  (?columns @
                   [''WHERE c.TABLE_NAME = '' @ escape G (JStr (tableName (extractTableDetails G tableRef))),
                    ''AND c.TABLE_SCHEMA = '' @ escape G (JStr (schema (extractTableDetails G tableRef))),
                    ?byName, ?byType,
                    ''ORDER BY c.CONSTRAINT_NAME'']))"
    by (auto simp: showConstraintsQuery_def Let_def)
  moreover have "set [''fk.TABLE_SCHEMA AS referencedTableSchema,'',
                 ''fk.TABLE_NAME AS referencedTableName,'',
                 ''r.DELETE_RULE AS deleteAction,'',
                 ''r.UPDATE_RULE AS updateAction,''] \<subseteq> set ?columns"
    by simp
  moreover have "\<forall>name. get_prop options ''constraintName'' = JStr name \<and> name \<noteq> [] \<longrightarrow>
                ?byName = ''AND c.CONSTRAINT_NAME = '' @ escape G (JStr name)"
    by simp
  moreover have "get_prop options ''constraintName'' = JUndef
              \<or> get_prop options ''constraintName'' = JStr [] \<longrightarrow> ?byName = []"
    by auto
  moreover have "\<forall>type. get_prop options ''constraintType'' = JStr type \<and> type \<noteq> [] \<longrightarrow>
                ?byType = ''AND c.CONSTRAINT_TYPE = '' @ escape G (JStr type)"
    by simp
  moreover have "get_prop options ''constraintType'' = JUndef
              \<or> get_prop options ''constraintType'' = JStr [] \<longrightarrow> ?byType = []"
    by auto
  ultimately show "\<exists>columns byName byType.
         showConstraintsQuery G tableRef options =
           Inr (joinSQLFragments G
                  (columns @
                   [''WHERE c.TABLE_NAME = '' @ escape G (JStr (tableName (extractTableDetails G tableRef))),
                    ''AND c.TABLE_SCHEMA = '' @ escape G (JStr (schema (extractTableDetails G tableRef))),
                    byName, byType,
                    ''ORDER BY c.CONSTRAINT_NAME'']))
         \<and> set [''fk.TABLE_SCHEMA AS referencedTableSchema,'',
                 ''fk.TABLE_NAME AS referencedTableName,'',
                 ''r.DELETE_RULE AS deleteAction,'',
                 ''r.UPDATE_RULE AS updateAction,''] \<subseteq> set columns
         \<and> (\<forall>name. get_prop options ''constraintName'' = JStr name \<and> name \<noteq> [] \<longrightarrow>
                byName = ''AND c.CONSTRAINT_NAME = '' @ escape G (JStr name))
         \<and> (get_prop options ''constraintName'' = JUndef
              \<or> get_prop options ''constraintName'' = JStr [] \<longrightarrow> byName = [])
         \<and> (\<forall>type. get_prop options ''constraintType'' = JStr type \<and> type \<noteq> [] \<longrightarrow>
                byType = ''AND c.CONSTRAINT_TYPE = '' @ escape G (JStr type))
         \<and> (get_prop options ''constraintType'' = JUndef
              \<or> get_prop options ''constraintType'' = JStr [] \<longrightarrow> byType = [])"
    by blast
next
  fix ob e
  assume "options = Some ob
          \<and> rejectInvalidOptions G ''showConstraintsQuery'' (dialect_name G)
              (SHOW_CONSTRAINTS_QUERY_SUPPORTABLE_OPTIONS G)
              SHOW_CONSTRAINTS_QUERY_SUPPORTED_OPTIONS ob = Some e"
  then show "showConstraintsQuery G tableRef options = Inl e"
    by (simp add: showConstraintsQuery_def)
qed

theorem showConstraintsQuery_statement_witness:
  "\<exists>columns byType.
     showConstraintsQuery exampleGenerator (JStr ''T'') (Some [(''constraintName'', JStr ''PK_1'')]) =
       Inr (joinSQLFragments exampleGenerator
              (columns @
               [''WHERE c.TABLE_NAME = '' @ escape exampleGenerator (JStr ''T''),
                ''AND c.TABLE_SCHEMA = '' @ escape exampleGenerator (JStr ''PUBLIC''),
                ''AND c.CONSTRAINT_NAME = '' @ escape exampleGenerator (JStr ''PK_1''),
                byType,
                ''ORDER BY c.CONSTRAINT_NAME'']))"
proof -
  have valid: "rejectInvalidOptions exampleGenerator ''showConstraintsQuery'' (dialect_name exampleGenerator)
                (SHOW_CONSTRAINTS_QUERY_SUPPORTABLE_OPTIONS exampleGenerator)
                SHOW_CONSTRAINTS_QUERY_SUPPORTED_OPTIONS [(''constraintName'', JStr ''PK_1'')] = None"
    by (simp add: exampleGenerator_def rejectInvalidOptions_spec_def
        SHOW_CONSTRAINTS_QUERY_SUPPORTED_OPTIONS_def)
  have name: "get_prop (Some [(''constraintName'', JStr ''PK_1'')]) ''constraintName'' = JStr ''PK_1''"
    by (simp add: get_prop_def)
  have details: "extractTableDetails exampleGenerator (JStr ''T'') = \<lparr>tableName = ''T'', schema = ''PUBLIC''\<rparr>"
    by (simp add: exampleGenerator_def)
  show ?thesis
    using showConstraintsQuery_statement
      [of "Some [(''constraintName'', JStr ''PK_1'')]" exampleGenerator "JStr ''T''"] valid name details
    by auto
qed

text \<open>
  The claim as first stated fails twice: with the empty string as constraint name the
  statement has no predicate on the name, and with an option that the dialect does not
  support there is no statement at all.
\<close>

theorem showConstraintsQuery_counterexample:
  "showConstraintsQuery exampleGenerator (JStr ''T'') (Some [(''constraintName'', JStr [])])
     = Inr ''SELECT c.CONSTRAINT_CATALOG AS constraintCatalog, c.CONSTRAINT_SCHEMA AS constraintSchema, c.CONSTRAINT_NAME AS constraintName, c.CONSTRAINT_TYPE AS constraintType, c.TABLE_CATALOG AS tableCatalog, c.TABLE_SCHEMA AS tableSchema, c.TABLE_NAME AS tableName, fk.TABLE_SCHEMA AS referencedTableSchema, fk.TABLE_NAME AS referencedTableName, r.DELETE_RULE AS deleteAction, r.UPDATE_RULE AS updateAction, c.IS_DEFERRABLE AS isDeferrable, c.INITIALLY_DEFERRED AS initiallyDeferred FROM INFORMATION_SCHEMA.TABLE_CONSTRAINTS c LEFT JOIN INFORMATION_SCHEMA.REFERENTIAL_CONSTRAINTS r ON c.CONSTRAINT_CATALOG = r.CONSTRAINT_CATALOG AND c.CONSTRAINT_SCHEMA = r.CONSTRAINT_SCHEMA AND c.CONSTRAINT_NAME = r.CONSTRAINT_NAME LEFT JOIN INFORMATION_SCHEMA.TABLE_CONSTRAINTS fk ON r.UNIQUE_CONSTRAINT_CATALOG = fk.CONSTRAINT_CATALOG AND r.UNIQUE_CONSTRAINT_SCHEMA = fk.CONSTRAINT_SCHEMA AND r.UNIQUE_CONSTRAINT_NAME = fk.CONSTRAINT_NAME WHERE c.TABLE_NAME = 'T' AND c.TABLE_SCHEMA = 'PUBLIC' ORDER BY c.CONSTRAINT_NAME''
   \<and> showConstraintsQuery exampleGenerator (JStr ''T'') (Some [(''columnName'', JStr ''id'')])
     = Inl (DialectNotSupportedError ''showConstraintsQuery'' ''snowflake'' ''columnName'')"
  by code_simp

section \<open>Properties of the transaction engine\<close>

text \<open>
  Claim C9. Called with an options object and no callback, \<open>transaction\<close> fails with the
  error that points to \<open>startUnmanagedTransaction\<close>, and the state is the one it was called
  in: no transaction has been constructed and no collaborator has been called.
\<close>

theorem transaction_requires_a_callback:
  "transaction S store (IsOptions ob) None s =
     (Inl (Error ''sequelize.transaction requires a callback. If you wish to start an unmanaged transaction, please use sequelize.startUnmanagedTransaction instead''), s)"
  by (simp add: transaction_def)

text \<open>
  Claim C1. Take one call of \<open>transaction\<close>, with the callback alone or with options and
  the callback, that creates its transaction: the compatibility check, where it is made,
  passes, and the mode is not \<open>reuse\<close> of an ambient transaction. In the run at hand
  \<open>prepareEnvironment\<close> succeeds, the unit of work, run once on the new transaction,
  throws \<open>E1\<close> and leaves the state \<open>s2\<close>, and the rollback called in \<open>s2\<close> throws \<open>E2\<close>.
  Then the call fails with \<open>E1\<close>, and its final state is \<open>s2\<close> with that one rollback
  recorded: \<open>E2\<close> is dropped, and nothing is run after the rollback.
\<close>

theorem rollback_failure_is_suppressed:
  fixes callback :: "('w, 'a) TransactionCallback"
  assumes arguments:
      "(case optionsOrCallback of
          IsFunction f \<Rightarrow> (\<lparr>nestMode = None, settings = []\<rparr>, Some f)
        | IsOptions ob \<Rightarrow> (ob, maybeCallback)) = (options, Some callback)"
    and mode:
      "mode = (case nestMode options of Some m \<Rightarrow> m | None \<Rightarrow> defaultTransactionNestMode S)"
    and resolved:
      "finalOptions =
         (if mode = separate
          then (normalizeTransactionOptions S options)\<lparr>opt_transaction := None\<rparr>
          else setTransactionFromCls (normalizeTransactionOptions S options) S store)"
    and compatible:
      "(case opt_transaction finalOptions of
          None \<Rightarrow> True
        | Some t \<Rightarrow> mode = separate
                    \<or> assertTransactionIsCompatibleWithOptions S t finalOptions = None)"
    and created: "mode = reuse \<longrightarrow> opt_transaction finalOptions = None"
    and fresh: "opt_transaction finalOptions \<noteq> Some (next_ref s)"
    and prepared: "prepareEnvironment S (next_ref s) (world s) = (None, w1)"
    and unit_of_work_throws:
      "callback (next_ref s) (if transactionCls S then Some (next_ref s) else store)
         (s\<lparr>trace := trace s @ [NewTransaction (next_ref s) finalOptions,
                                 PrepareEnvironment (next_ref s)],
            next_ref := Suc (next_ref s),
            world := w1\<rparr>) = (Inl E1, s2)"
    and rollback_throws: "rollback S (next_ref s) (world s2) = (Some E2, w3)"
  shows "transaction S store optionsOrCallback maybeCallback s =
           (Inl E1, s2\<lparr>trace := trace s2 @ [Rollback (next_ref s)], world := w3\<rparr>)"
proof -
  let ?tx = "next_ref s"
  let ?s0 = "s\<lparr>trace := trace s @ [NewTransaction ?tx finalOptions], next_ref := Suc ?tx\<rparr>"
  let ?store = "if transactionCls S then Some ?tx else store"
  have chosen: "(case mode = reuse of
                   True \<Rightarrow> (case opt_transaction finalOptions of
                              None \<Rightarrow> new_Transaction finalOptions s
                            | Some t \<Rightarrow> (t, s))
                 | False \<Rightarrow> new_Transaction finalOptions s) = (?tx, ?s0)"
    using created
    by (cases "opt_transaction finalOptions"; cases "mode = reuse")
       (auto simp: new_Transaction_def)
  have run: "wrappedCallback S ?tx False callback ?store ?s0
               = (Inl E1, s2\<lparr>trace := trace s2 @ [Rollback ?tx], world := w3\<rparr>)"
  proof -
    from prepared
    have p: "invoke (PrepareEnvironment ?tx) (prepareEnvironment S ?tx) ?s0
               = (None, s\<lparr>trace := trace s @ [NewTransaction ?tx finalOptions, PrepareEnvironment ?tx],
                         next_ref := Suc ?tx,
                         world := w1\<rparr>)"
      by (simp add: invoke_def)
    from rollback_throws
    have r: "invoke (Rollback ?tx) (rollback S ?tx) s2
               = (Some E2, s2\<lparr>trace := trace s2 @ [Rollback ?tx], world := w3\<rparr>)"
      by (simp add: invoke_def)
    show ?thesis
      by (simp only: wrappedCallback_def p unit_of_work_throws r if_False prod.case option.case
          sum.case)
  qed
  have validated:
    "(if mode = separate
      then Inr ((normalizeTransactionOptions S options)\<lparr>opt_transaction := None\<rparr>)
      else (case opt_transaction (setTransactionFromCls (normalizeTransactionOptions S options) S store) of
              None \<Rightarrow> Inr (setTransactionFromCls (normalizeTransactionOptions S options) S store)
            | Some t \<Rightarrow>
                (case assertTransactionIsCompatibleWithOptions S t
                        (setTransactionFromCls (normalizeTransactionOptions S options) S store) of
                   Some e \<Rightarrow> Inl e
                 | None \<Rightarrow> Inr (setTransactionFromCls (normalizeTransactionOptions S options) S store))))
     = (Inr finalOptions :: error + NormalizedTransactionOptions)"
    using resolved compatible
    by (cases "mode = separate") (auto split: option.splits)
  have call: "transaction S store optionsOrCallback maybeCallback s
                = wrappedCallback S ?tx (opt_transaction finalOptions = Some ?tx) callback ?store ?s0"
    unfolding transaction_def arguments Let_def prod.case option.case mode [symmetric]
      validated sum.case chosen
    by (rule refl)
  from call fresh run show ?thesis by simp
qed

theorem rollback_failure_is_suppressed_witness:
  "transaction (exampleSequelize\<lparr>rollback := (\<lambda>t w. (Some (Thrown ''E2''), w))\<rparr>) None
     (IsFunction (\<lambda>t st s. (Inl (Thrown ''E1''), s))) None initial
   = (Inl (Thrown ''E1'') :: error + unit,
      \<lparr>trace = [NewTransaction 0 \<lparr>opt_transaction = None, opt_settings = []\<rparr>,
                PrepareEnvironment 0, Rollback 0],
       next_ref = 1, world = 0\<rparr>)"
proof -
  let ?S = "exampleSequelize\<lparr>rollback := (\<lambda>t w. (Some (Thrown ''E2''), w))\<rparr>"
  let ?callback = "(\<lambda>t st s. (Inl (Thrown ''E1''), s)) :: (nat, unit) TransactionCallback"
  let ?arg = "IsFunction ?callback
                :: ((nat, unit) TransactionCallback, ManagedTransactionOptions) optionsOrCallback"
  let ?options = "\<lparr>nestMode = None, settings = []\<rparr>"
  let ?final = "\<lparr>opt_transaction = None, opt_settings = []\<rparr>"
  let ?s1 = "initial\<lparr>trace := trace initial @ [NewTransaction (next_ref initial) ?final,
                                                 PrepareEnvironment (next_ref initial)],
                     next_ref := Suc (next_ref initial),
                     world := 0\<rparr>"
  have arguments:
    "(case ?arg of
        IsFunction f \<Rightarrow> (\<lparr>nestMode = None, settings = []\<rparr>, Some f)
      | IsOptions ob \<Rightarrow> (ob, None)) = (?options, Some ?callback)"
    by simp
  have mode:
    "reuse = (case nestMode ?options of Some m \<Rightarrow> m | None \<Rightarrow> defaultTransactionNestMode ?S)"
    by (simp add: exampleSequelize_def)
  have resolved:
    "?final =
       (if reuse = separate
        then (normalizeTransactionOptions ?S ?options)\<lparr>opt_transaction := None\<rparr>
        else setTransactionFromCls (normalizeTransactionOptions ?S ?options) ?S None)"
    by (simp add: exampleSequelize_def setTransactionFromCls_def getCurrentClsTransaction_def)
  have compatible:
    "(case opt_transaction ?final of
        None \<Rightarrow> True
      | Some t \<Rightarrow> reuse = separate
                  \<or> assertTransactionIsCompatibleWithOptions ?S t ?final = None)"
    by simp
  have created: "reuse = reuse \<longrightarrow> opt_transaction ?final = None"
    by simp
  have fresh: "opt_transaction ?final \<noteq> Some (next_ref initial)"
    by simp
  have prepared: "prepareEnvironment ?S (next_ref initial) (world initial) = (None, 0)"
    by (simp add: exampleSequelize_def initial_def)
  have unit_of_work_throws:
    "?callback (next_ref initial) (if transactionCls ?S then Some (next_ref initial) else None) ?s1
       = (Inl (Thrown ''E1''), ?s1)"
    by simp
  have rollback_throws: "rollback ?S (next_ref initial) (world ?s1) = (Some (Thrown ''E2''), 0)"
    by simp
  from rollback_failure_is_suppressed
    [where S = ?S and callback = ?callback and optionsOrCallback = ?arg and maybeCallback = None
       and options = ?options and mode = reuse and finalOptions = ?final and store = None
       and s = initial and ?w1.0 = 0 and ?E1.0 = "Thrown ''E1''" and ?s2.0 = ?s1
       and ?E2.0 = "Thrown ''E2''" and ?w3.0 = 0,
     OF arguments mode resolved compatible created fresh prepared unit_of_work_throws
        rollback_throws]
  show ?thesis
    by (simp add: initial_def)
qed

lemma opt_transaction_update_None:
  "opt_transaction normalizedOptions = None \<Longrightarrow>
     normalizedOptions\<lparr>opt_transaction := None\<rparr> = normalizedOptions"
  by (cases normalizedOptions) simp

lemma transaction_reuses_ambient:
  assumes "transactionCls S"
    and "(case nestMode ob of Some m \<Rightarrow> m | None \<Rightarrow> defaultTransactionNestMode S) = reuse"
    and "assertTransactionIsCompatibleWithOptions S t
           ((normalizeTransactionOptions S ob)\<lparr>opt_transaction := Some t\<rparr>) = None"
  shows "transaction S (Some t) (IsOptions ob) (Some callback) s = callback t (Some t) s"
  using assms
  by (simp add: transaction_def Let_def setTransactionFromCls_def getCurrentClsTransaction_def
      wrappedCallback_def)

lemma transaction_creates_at_top_level:
  assumes "opt_transaction (normalizeTransactionOptions S ob) = None"
  shows "transaction S None (IsOptions ob) (Some callback) s =
           wrappedCallback S (next_ref s) False callback
             (if transactionCls S then Some (next_ref s) else None)
             (s\<lparr>trace := trace s @ [NewTransaction (next_ref s) (normalizeTransactionOptions S ob)],
                next_ref := Suc (next_ref s)\<rparr>)"
  using assms
  by (simp add: transaction_def Let_def setTransactionFromCls_def getCurrentClsTransaction_def
      new_Transaction_def opt_transaction_update_None split: bool.split)

lemma transaction_separate_creates:
  assumes "(case nestMode ob of Some m \<Rightarrow> m | None \<Rightarrow> defaultTransactionNestMode S) = separate"
  shows "transaction S store (IsOptions ob) (Some callback) s =
           wrappedCallback S (next_ref s) False callback
             (if transactionCls S then Some (next_ref s) else store)
             (s\<lparr>trace := trace s @ [NewTransaction (next_ref s)
                                       ((normalizeTransactionOptions S ob)\<lparr>opt_transaction := None\<rparr>)],
                next_ref := Suc (next_ref s)\<rparr>)"
  using assms
  by (simp add: transaction_def Let_def new_Transaction_def)

text \<open>
  Claim C2. A call of \<open>transaction\<close> is made at top level (no ambient transaction, none in
  its options) on an instance with the asynchronous store set up, and its unit of work
  calls \<open>transaction\<close> again, in mode \<open>reuse\<close>, with options that are compatible with the
  ambient transaction. Then the unit of work \<open>f\<close> of the inner call runs on the
  transaction that the outer call has constructed, and the two calls together construct
  one transaction, prepare it once, and commit it once when \<open>f\<close> returns or roll it back
  once when \<open>f\<close> throws. And whatever its callback is, the inner call is nothing but that
  callback run on the outer transaction: it calls no collaborator of its own.
\<close>

theorem reuse_shares_the_outer_transaction:
  fixes f :: "Transaction \<Rightarrow> 'w \<Rightarrow> (error + 'a) \<times> 'w"
  assumes cls: "transactionCls S"
    and outer_creates: "opt_transaction (normalizeTransactionOptions S outerOptions) = None"
    and inner_reuse:
      "(case nestMode innerOptions of Some m \<Rightarrow> m | None \<Rightarrow> defaultTransactionNestMode S) = reuse"
    and compatible:
      "assertTransactionIsCompatibleWithOptions S (next_ref s)
         ((normalizeTransactionOptions S innerOptions)\<lparr>opt_transaction := Some (next_ref s)\<rparr>) = None"
    and prepared: "prepareEnvironment S (next_ref s) (world s) = (None, w1)"
    and work: "f (next_ref s) w1 = (outcome, w2)"
    and finish:
      "(case outcome of Inl e \<Rightarrow> rollback S (next_ref s) w2
                      | Inr r \<Rightarrow> commit S (next_ref s) w2) = (fin, w3)"
  shows "transaction S None (IsOptions outerOptions)
           (Some (\<lambda>t store. transaction S store (IsOptions innerOptions) (Some (userCode f)))) s
         = ((case outcome of
               Inl e \<Rightarrow> Inl e
             | Inr r \<Rightarrow> (case fin of None \<Rightarrow> Inr r | Some e \<Rightarrow> Inl e)),
            s\<lparr>trace := trace s @
                 [NewTransaction (next_ref s) (normalizeTransactionOptions S outerOptions),
                  PrepareEnvironment (next_ref s),
                  (case outcome of Inl e \<Rightarrow> Rollback (next_ref s)
                                 | Inr r \<Rightarrow> Commit (next_ref s))],
              next_ref := Suc (next_ref s),
              world := w3\<rparr>)
       \<and> (\<forall>callback s'.
             transaction S (Some (next_ref s)) (IsOptions innerOptions) (Some callback) s'
               = (callback (next_ref s) (Some (next_ref s)) s' :: (error + 'a) \<times> 'w runtime))"
proof -
  let ?t = "next_ref s"
  let ?s1 = "s\<lparr>trace := trace s @ [NewTransaction ?t (normalizeTransactionOptions S outerOptions),
                                    PrepareEnvironment ?t],
               next_ref := Suc ?t, world := w1\<rparr>"
  have inner: "\<And>callback s1. transaction S (Some ?t) (IsOptions innerOptions) (Some callback) s1
                 = (callback ?t (Some ?t) s1 :: (error + 'a) \<times> 'w runtime)"
    using transaction_reuses_ambient [OF cls inner_reuse compatible] .
  have nested: "transaction S None (IsOptions outerOptions)
           (Some (\<lambda>t store. transaction S store (IsOptions innerOptions) (Some (userCode f)))) s
         = ((case outcome of
               Inl e \<Rightarrow> Inl e
             | Inr r \<Rightarrow> (case fin of None \<Rightarrow> Inr r | Some e \<Rightarrow> Inl e)),
            s\<lparr>trace := trace s @
                 [NewTransaction (next_ref s) (normalizeTransactionOptions S outerOptions),
                  PrepareEnvironment (next_ref s),
                  (case outcome of Inl e \<Rightarrow> Rollback (next_ref s)
                                 | Inr r \<Rightarrow> Commit (next_ref s))],
              next_ref := Suc (next_ref s),
              world := w3\<rparr>)"
    using finish
    by (cases outcome; cases fin)
       (simp_all add: transaction_creates_at_top_level [OF outer_creates] cls wrappedCallback_def
          invoke_def prepared inner userCode_def work)
  from nested inner show ?thesis by blast
qed

theorem reuse_shares_the_outer_transaction_witness:
  "transaction exampleSequelize None (IsOptions \<lparr>nestMode = None, settings = []\<rparr>)
     (Some (\<lambda>t store. transaction exampleSequelize store
                         (IsOptions \<lparr>nestMode = Some reuse, settings = []\<rparr>)
                         (Some (userCode (\<lambda>t w. (Inr t, Suc w))))))
     initial
   = (Inr 0,
      \<lparr>trace = [NewTransaction 0 \<lparr>opt_transaction = None, opt_settings = []\<rparr>,
                PrepareEnvironment 0, Commit 0],
       next_ref = 1, world = 2\<rparr>)"
proof -
  let ?outer = "\<lparr>nestMode = None, settings = []\<rparr>"
  let ?inner = "\<lparr>nestMode = Some reuse, settings = []\<rparr>"
  let ?f = "(\<lambda>t w. (Inr t, Suc w)) :: Transaction \<Rightarrow> nat \<Rightarrow> (error + nat) \<times> nat"
  have cls: "transactionCls exampleSequelize"
    by (simp add: exampleSequelize_def)
  have outer_creates: "opt_transaction (normalizeTransactionOptions exampleSequelize ?outer) = None"
    by (simp add: exampleSequelize_def)
  have inner_reuse:
    "(case nestMode ?inner of Some m \<Rightarrow> m | None \<Rightarrow> defaultTransactionNestMode exampleSequelize) = reuse"
    by simp
  have compatible:
    "assertTransactionIsCompatibleWithOptions exampleSequelize (next_ref initial)
       ((normalizeTransactionOptions exampleSequelize ?inner)\<lparr>opt_transaction := Some (next_ref initial)\<rparr>)
     = None"
    by (simp add: exampleSequelize_def)
  have prepared: "prepareEnvironment exampleSequelize (next_ref initial) (world initial) = (None, 0)"
    by (simp add: exampleSequelize_def initial_def)
  have work: "?f (next_ref initial) 0 = (Inr 0, 1)"
    by (simp add: initial_def)
  have finish:
    "(case (Inr 0 :: error + nat) of
        Inl e \<Rightarrow> rollback exampleSequelize (next_ref initial) 1
      | Inr r \<Rightarrow> commit exampleSequelize (next_ref initial) 1) = (None, 2)"
    by (simp add: exampleSequelize_def)
  from reuse_shares_the_outer_transaction
    [where S = exampleSequelize and s = initial and f = ?f and outerOptions = ?outer
       and innerOptions = ?inner and ?w1.0 = 0 and outcome = "Inr 0" and ?w2.0 = 1
       and fin = None and ?w3.0 = 2,
     OF cls outer_creates inner_reuse compatible prepared work finish, THEN conjunct1]
  show ?thesis
    by (simp add: initial_def exampleSequelize_def)
qed

text \<open>
  Claim C6. In the same nesting, when the inner call is in mode \<open>separate\<close>, it constructs
  a second transaction with no parent, which is not the ambient one, prepares it, runs
  its unit of work \<open>f\<close> on it, and commits it or rolls it back itself, before the outer
  call commits or rolls back its own. And whatever the store holds, a call in mode
  \<open>separate\<close> constructs a fresh transaction without parent and manages it itself.
\<close>

theorem separate_starts_its_own_transaction:
  fixes f :: "Transaction \<Rightarrow> 'w \<Rightarrow> (error + 'a) \<times> 'w"
  assumes outer_creates: "opt_transaction (normalizeTransactionOptions S outerOptions) = None"
    and inner_separate:
      "(case nestMode innerOptions of Some m \<Rightarrow> m | None \<Rightarrow> defaultTransactionNestMode S) = separate"
    and outer_prepared: "prepareEnvironment S (next_ref s) (world s) = (None, w1)"
    and inner_prepared: "prepareEnvironment S (Suc (next_ref s)) w1 = (None, w2)"
    and work: "f (Suc (next_ref s)) w2 = (outcome, w3)"
    and inner_finish:
      "(case outcome of Inl e \<Rightarrow> rollback S (Suc (next_ref s)) w3
                      | Inr r \<Rightarrow> commit S (Suc (next_ref s)) w3) = (fin1, w4)"
    and inner_result:
      "result1 = (case outcome of
                    Inl e \<Rightarrow> Inl e
                  | Inr r \<Rightarrow> (case fin1 of None \<Rightarrow> Inr r | Some e \<Rightarrow> Inl e))"
    and outer_finish:
      "(case result1 of Inl e \<Rightarrow> rollback S (next_ref s) w4
                      | Inr r \<Rightarrow> commit S (next_ref s) w4) = (fin0, w5)"
  shows "transaction S None (IsOptions outerOptions)
           (Some (\<lambda>t store. transaction S store (IsOptions innerOptions) (Some (userCode f)))) s
         = ((case result1 of
               Inl e \<Rightarrow> Inl e
             | Inr r \<Rightarrow> (case fin0 of None \<Rightarrow> Inr r | Some e \<Rightarrow> Inl e)),
            s\<lparr>trace := trace s @
                 [NewTransaction (next_ref s) (normalizeTransactionOptions S outerOptions),
                  PrepareEnvironment (next_ref s),
                  NewTransaction (Suc (next_ref s))
                    ((normalizeTransactionOptions S innerOptions)\<lparr>opt_transaction := None\<rparr>),
                  PrepareEnvironment (Suc (next_ref s)),
                  (case outcome of Inl e \<Rightarrow> Rollback (Suc (next_ref s))
                                 | Inr r \<Rightarrow> Commit (Suc (next_ref s))),
                  (case result1 of Inl e \<Rightarrow> Rollback (next_ref s)
                                 | Inr r \<Rightarrow> Commit (next_ref s))],
              next_ref := Suc (Suc (next_ref s)),
              world := w5\<rparr>)
       \<and> Suc (next_ref s) \<noteq> next_ref s
       \<and> (\<forall>store callback s'.
             transaction S store (IsOptions innerOptions) (Some callback) s'
               = (wrappedCallback S (next_ref s') False callback
                    (if transactionCls S then Some (next_ref s') else store)
                    (s'\<lparr>trace := trace s' @
                          [NewTransaction (next_ref s')
                             ((normalizeTransactionOptions S innerOptions)\<lparr>opt_transaction := None\<rparr>)],
                        next_ref := Suc (next_ref s')\<rparr>)
                  :: (error + 'a) \<times> 'w runtime))"
proof -
  have nested: "transaction S None (IsOptions outerOptions)
           (Some (\<lambda>t store. transaction S store (IsOptions innerOptions) (Some (userCode f)))) s
         = ((case result1 of
               Inl e \<Rightarrow> Inl e
             | Inr r \<Rightarrow> (case fin0 of None \<Rightarrow> Inr r | Some e \<Rightarrow> Inl e)),
            s\<lparr>trace := trace s @
                 [NewTransaction (next_ref s) (normalizeTransactionOptions S outerOptions),
                  PrepareEnvironment (next_ref s),
                  NewTransaction (Suc (next_ref s))
                    ((normalizeTransactionOptions S innerOptions)\<lparr>opt_transaction := None\<rparr>),
                  PrepareEnvironment (Suc (next_ref s)),
                  (case outcome of Inl e \<Rightarrow> Rollback (Suc (next_ref s))
                                 | Inr r \<Rightarrow> Commit (Suc (next_ref s))),
                  (case result1 of Inl e \<Rightarrow> Rollback (next_ref s)
                                 | Inr r \<Rightarrow> Commit (next_ref s))],
              next_ref := Suc (Suc (next_ref s)),
              world := w5\<rparr>)"
    using inner_finish outer_finish inner_result
    by (cases outcome; cases fin1; cases fin0)
       (simp_all add: transaction_creates_at_top_level [OF outer_creates]
          transaction_separate_creates [OF inner_separate] wrappedCallback_def
          invoke_def outer_prepared inner_prepared work userCode_def)
  have every_call: "\<And>store callback s'.
             transaction S store (IsOptions innerOptions) (Some callback) s'
               = (wrappedCallback S (next_ref s') False callback
                    (if transactionCls S then Some (next_ref s') else store)
                    (s'\<lparr>trace := trace s' @
                          [NewTransaction (next_ref s')
                             ((normalizeTransactionOptions S innerOptions)\<lparr>opt_transaction := None\<rparr>)],
                        next_ref := Suc (next_ref s')\<rparr>)
                  :: (error + 'a) \<times> 'w runtime)"
    using transaction_separate_creates [OF inner_separate] .
  from nested every_call show ?thesis by simp
qed

theorem separate_starts_its_own_transaction_witness:
  "transaction exampleSequelize None (IsOptions \<lparr>nestMode = None, settings = []\<rparr>)
     (Some (\<lambda>t store. transaction exampleSequelize store
                         (IsOptions \<lparr>nestMode = Some separate, settings = []\<rparr>)
                         (Some (userCode (\<lambda>t w. (Inr t, Suc w))))))
     initial
   = (Inr 1,
      \<lparr>trace = [NewTransaction 0 \<lparr>opt_transaction = None, opt_settings = []\<rparr>,
                PrepareEnvironment 0,
                NewTransaction 1 \<lparr>opt_transaction = None, opt_settings = []\<rparr>,
                PrepareEnvironment 1, Commit 1, Commit 0],
       next_ref = 2, world = 3\<rparr>)"
proof -
  let ?outer = "\<lparr>nestMode = None, settings = []\<rparr>"
  let ?inner = "\<lparr>nestMode = Some separate, settings = []\<rparr>"
  let ?f = "(\<lambda>t w. (Inr t, Suc w)) :: Transaction \<Rightarrow> nat \<Rightarrow> (error + nat) \<times> nat"
  have outer_creates: "opt_transaction (normalizeTransactionOptions exampleSequelize ?outer) = None"
    by (simp add: exampleSequelize_def)
  have inner_separate:
    "(case nestMode ?inner of Some m \<Rightarrow> m | None \<Rightarrow> defaultTransactionNestMode exampleSequelize)
       = separate"
    by simp
  have outer_prepared:
    "prepareEnvironment exampleSequelize (next_ref initial) (world initial) = (None, 0)"
    by (simp add: exampleSequelize_def initial_def)
  have inner_prepared: "prepareEnvironment exampleSequelize (Suc (next_ref initial)) 0 = (None, 0)"
    by (simp add: exampleSequelize_def)
  have work: "?f (Suc (next_ref initial)) 0 = (Inr 1, 1)"
    by (simp add: initial_def)
  have inner_finish:
    "(case (Inr 1 :: error + nat) of
        Inl e \<Rightarrow> rollback exampleSequelize (Suc (next_ref initial)) 1
      | Inr r \<Rightarrow> commit exampleSequelize (Suc (next_ref initial)) 1) = (None, 2)"
    by (simp add: exampleSequelize_def)
  have inner_result:
    "(Inr 1 :: error + nat) =
       (case (Inr 1 :: error + nat) of
          Inl e \<Rightarrow> Inl e
        | Inr r \<Rightarrow> (case (None :: error option) of None \<Rightarrow> Inr r | Some e \<Rightarrow> Inl e))"
    by simp
  have outer_finish:
    "(case (Inr 1 :: error + nat) of
        Inl e \<Rightarrow> rollback exampleSequelize (next_ref initial) 2
      | Inr r \<Rightarrow> commit exampleSequelize (next_ref initial) 2) = (None, 3)"
    by (simp add: exampleSequelize_def)
  from separate_starts_its_own_transaction
    [where S = exampleSequelize and s = initial and f = ?f and outerOptions = ?outer
       and innerOptions = ?inner and ?w1.0 = 0 and ?w2.0 = 0 and outcome = "Inr 1" and ?w3.0 = 1
       and ?fin1.0 = None and ?w4.0 = 2 and ?result1.0 = "Inr 1" and ?fin0.0 = None and ?w5.0 = 3,
     OF outer_creates inner_separate outer_prepared inner_prepared work inner_finish
        inner_result outer_finish, THEN conjunct1]
  show ?thesis
    by (simp add: initial_def exampleSequelize_def)
qed

section \<open>Properties of the bulk operations and of connections\<close>













text \<open>
  Claim C5. When \<open>withoutForeignKeyChecks\<close> is set and the dialect cannot disable the
  foreign key checks, \<open>truncate\<close> fails with the error that says so, and the state is the
  one it was called in: no call on a model, on the query interface or on a connection
  has been made.
\<close>

theorem truncate_needs_a_dialect_that_disables_checks:
  \<open>truthy (get_prop options ''withoutForeignKeyChecks'') \<and> \<not> foreignKeyChecksDisableable S
    \<longrightarrow> truncate S options s =
          (Inl (Error (''Sequelize#truncate: '' @ dialectName S @ '' does not support disabling foreign key checks. The "withoutForeignKeyChecks" option cannot be used.'')), s)\<close>
  by (simp add: truncate_def Let_def)

theorem truncate_needs_a_dialect_that_disables_checks_witness:
  \<open>truncate exampleSequelize (Some [(''withoutForeignKeyChecks'', JBool True)]) initial =
     (Inl (Error ''Sequelize#truncate: snowflake does not support disabling foreign key checks. The "withoutForeignKeyChecks" option cannot be used.''), initial)\<close>
proof -
  have requested:
    "truthy (get_prop (Some [(''withoutForeignKeyChecks'', JBool True)]) ''withoutForeignKeyChecks'')
     \<and> \<not> foreignKeyChecksDisableable exampleSequelize"
    by (simp add: get_prop_def exampleSequelize_def)
  have name: "dialectName exampleSequelize = ''snowflake''"
    by (simp add: exampleSequelize_def)
  from requested
    truncate_needs_a_dialect_that_disables_checks
      [where S = exampleSequelize and options = "Some [(''withoutForeignKeyChecks'', JBool True)]"
         and s = initial]
  have \<open>truncate exampleSequelize (Some [(''withoutForeignKeyChecks'', JBool True)]) initial =
     (Inl (Error (''Sequelize#truncate: '' @ dialectName exampleSequelize @ '' does not support disabling foreign key checks. The "withoutForeignKeyChecks" option cannot be used.'')), initial)\<close>
    by blast
  with name show ?thesis by simp
qed

text \<open>
  Claim C10, as amended. Once \<open>getConnection\<close> has returned a connection,
  \<open>withConnection\<close> runs the callback and then gives the connection back exactly once,
  whether the callback returned or threw: by \<open>destroyConnection\<close> when
  \<open>options.destroyConnection\<close> is truthy, by \<open>releaseConnection\<close> otherwise. When that step
  succeeds, the outcome of the callback, result or error, is the outcome of the call;
  when that step throws, its error is the outcome of the call.
\<close>

theorem withConnection_gives_the_connection_back:
  assumes arguments:
      "options = (case optionsOrCallback of
                    IsFunction f \<Rightarrow> [(''type'', JStr ''write'')]
                  | IsOptions ob \<Rightarrow> spread [(''type'', JStr ''write'')] ob)"
      "(case optionsOrCallback of IsFunction f \<Rightarrow> Some f | IsOptions ob \<Rightarrow> maybeCallback)
         = Some callback"
    and acquired: "getConnection S options (world s) = (Inr connection, w1)"
    and work: "callback connection (s\<lparr>trace := trace s @ [GetConnection options], world := w1\<rparr>)
                 = (outcome, s2)"
    and given_back:
      "(if truthy (get_prop (Some options) ''destroyConnection'')
        then destroyConnection S connection (world s2)
        else releaseConnection S connection (world s2)) = (fin, w3)"
  shows "withConnection S optionsOrCallback maybeCallback s =
           ((case fin of None \<Rightarrow> outcome | Some e \<Rightarrow> Inl e),
            s2\<lparr>trace := trace s2 @
                  [if truthy (get_prop (Some options) ''destroyConnection'')
                   then DestroyConnection connection else ReleaseConnection connection],
               world := w3\<rparr>)"
  using assms
  by (cases optionsOrCallback; cases fin)
     (simp_all add: withConnection_def invoke_def split: if_splits)

theorem withConnection_gives_the_connection_back_witness:
  "withConnection exampleSequelize (IsFunction (\<lambda>c s. (Inr c, s))) None initial =
     (Inr 7,
      \<lparr>trace = [GetConnection [(''type'', JStr ''write'')], ReleaseConnection 7],
       next_ref = 0, world = 0\<rparr>)"
proof -
  let ?callback = "(\<lambda>c s. (Inr c, s)) :: (nat, nat) SessionCallback"
  let ?arg = "IsFunction ?callback :: ((nat, nat) SessionCallback, object) optionsOrCallback"
  let ?options = "[(''type'', JStr ''write'')]"
  let ?s1 = "initial\<lparr>trace := trace initial @ [GetConnection ?options], world := 0\<rparr>"
  have args1: "?options = (case ?arg of
                    IsFunction f \<Rightarrow> [(''type'', JStr ''write'')]
                  | IsOptions ob \<Rightarrow> spread [(''type'', JStr ''write'')] ob)"
    by simp
  have args2: "(case ?arg of IsFunction f \<Rightarrow> Some f | IsOptions ob \<Rightarrow> None) = Some ?callback"
    by simp
  have acquired: "getConnection exampleSequelize ?options (world initial) = (Inr 7, 0)"
    by (simp add: exampleSequelize_def initial_def)
  have work: "?callback 7 ?s1 = (Inr 7, ?s1)"
    by simp
  have given_back:
    "(if truthy (get_prop (Some ?options) ''destroyConnection'')
      then destroyConnection exampleSequelize 7 (world ?s1)
      else releaseConnection exampleSequelize 7 (world ?s1)) = (None, 0)"
    by (simp add: get_prop_def exampleSequelize_def)
  from withConnection_gives_the_connection_back
    [where S = exampleSequelize and optionsOrCallback = ?arg and maybeCallback = None
       and callback = ?callback and options = ?options and s = initial and connection = 7
       and ?w1.0 = 0 and outcome = "Inr 7" and ?s2.0 = ?s1 and fin = None and ?w3.0 = 0,
     OF args1 args2 acquired work given_back]
  show ?thesis
    by (simp add: initial_def get_prop_def)
qed

text \<open>
  The claim as first stated fails when giving the connection back throws: the error of
  the callback, or its result, is replaced by the error of \<open>destroyConnection\<close>.
\<close>

theorem withConnection_release_failure_counterexample:
  "withConnection (exampleSequelize\<lparr>destroyConnection := (\<lambda>c w. (Some (Thrown ''E2''), w))\<rparr>)
       (IsOptions [(''destroyConnection'', JBool True)])
       (Some (\<lambda>c s. (Inl (Thrown ''E1''), s))) initial
     = (Inl (Thrown ''E2'') :: error + unit,
        \<lparr>trace = [GetConnection [(''type'', JStr ''write''), (''destroyConnection'', JBool True)],
                  DestroyConnection 7],
         next_ref = 0, world = 0\<rparr>)
   \<and> withConnection (exampleSequelize\<lparr>destroyConnection := (\<lambda>c w. (Some (Thrown ''E2''), w))\<rparr>)
       (IsOptions [(''destroyConnection'', JBool True)])
       (Some (\<lambda>c s. (Inr c, s))) initial
     = (Inl (Thrown ''E2''),
        \<lparr>trace = [GetConnection [(''type'', JStr ''write''), (''destroyConnection'', JBool True)],
                  DestroyConnection 7],
         next_ref = 0, world = 0\<rparr>)"
  by code_simp

end
